theory Spec2Isabelle
  imports Main
begin

section \<open>Run-time failures\<close>

text \<open>
  A Go run-time panic is not an \<open>error\<close> value: it unwinds the caller. The two panics the
  modelled functions can raise are a write through a nil pointer and an index past the end of
  a slice.
\<close>

datatype panic = NilPointerDereference | IndexOutOfRange

section \<open>Container spec options (spec.go)\<close>

text \<open>
  \<open>specs.Spec\<close> and \<open>specs.Process\<close> are declared by the runtime-spec library, not by this
  package. The records name the fields spec.go touches (\<open>Process\<close> with its \<open>Args\<close>, and
  \<open>Annotations\<close>); every other field of the two structs is a parameter: it lives in the
  records' extension slot \<open>more\<close>, so an update that leaves \<open>more\<close> alone leaves all of
  them alone. \<open>Process\<close> is taken as a pointer field, \<open>None\<close> being nil; a struct held by
  value is the case where it is never \<open>None\<close>.
\<close>

record specs_Process =
  Args :: "string list"

record 'p specs_Spec =
  Process :: "'p specs_Process_scheme option"
  Annotations :: "(string \<rightharpoonup> string) option"

text \<open>
  \<open>WithArgs(args...)\<close> returns the closure \<open>func(s *specs.Spec) error\<close> whose body is
  \<open>s.Process.Args = args; return nil\<close>. The model takes the struct \<open>s\<close> points to and returns
  the struct after the write; the closure's \<open>error\<close> result is always nil, so \<open>Inr\<close> carries
  only the updated struct, and \<open>Inl\<close> is the panic of the write through a nil \<open>Process\<close>.
\<close>

definition WithArgs ::
  "string list \<Rightarrow> ('p, 'm) specs_Spec_scheme \<Rightarrow> panic + ('p, 'm) specs_Spec_scheme" where
  "WithArgs args s =
     (case Process s of
        None \<Rightarrow> Inl NilPointerDereference
      | Some p \<Rightarrow> Inr (s\<lparr>Process := Some (p\<lparr>Args := args\<rparr>)\<rparr>))"

section \<open>Data model of the pull pipeline (client.go)\<close>

text \<open>
  Modelled from the spec: the declarations of the types below are not among the source
  files; they belong to packages client.go imports (image-spec's \<open>v1\<close>, and the \<open>images\<close>,
  \<open>rootfs\<close>, \<open>content\<close>, \<open>snapshot\<close> and \<open>diff\<close> packages). Their fields are those of the
  spec's data model, under the names client.go uses. A digest is a string
  (\<open>digest.Digest\<close>), a blob is a byte string. A descriptor has a media type, a digest and a
  size (an int64; it is only ever copied or left zero).
\<close>

type_synonym digest = string
type_synonym bytes = string

record Descriptor =
  MediaType :: string
  Digest :: digest
  Size :: int

record Manifest =
  Config :: Descriptor
  Layers :: "Descriptor list"

text \<open>\<open>images.Image\<close>: the name and the descriptor of the manifest.\<close>

record images_Image =
  Name :: string
  Target :: Descriptor

text \<open>\<open>rootfs.Layer\<close>: the uncompressed identity and the fetched blob of one layer.\<close>

record Layer =
  Diff :: Descriptor
  Blob :: Descriptor

text \<open>
  Error values: \<open>errors.Errorf(msg)\<close>, \<open>errors.Wrap(err, msg)\<close> (and \<open>Wrapf\<close> with a format
  that has no verbs), and a branch for a run-time panic, which leaves every caller at once as
  an error return does here.
\<close>

datatype error = Errorf string | Wrap error string | Panic panic

text \<open>
  The client holds one gRPC connection; each service handle is built from it on demand
  (\<open>c.content()\<close>, \<open>c.snapshotter()\<close>, \<open>c.images()\<close>, \<open>c.diff()\<close>).
\<close>

datatype grpc_ClientConn = Dial string

record Client =
  conn :: grpc_ClientConn
  Runtime :: string

datatype content_Store = content_NewStoreFromClient grpc_ClientConn
datatype Snapshotter = NewSnapshotterFromClient grpc_ClientConn
datatype images_Store = images_NewStoreFromClient grpc_ClientConn
datatype DiffService = NewDiffServiceFromClient grpc_ClientConn

definition Client_content :: "Client \<Rightarrow> content_Store" where
  "Client_content c = content_NewStoreFromClient (conn c)"

definition Client_snapshotter :: "Client \<Rightarrow> Snapshotter" where
  "Client_snapshotter c = NewSnapshotterFromClient (conn c)"


definition Client_diff :: "Client \<Rightarrow> DiffService" where
  "Client_diff c = NewDiffServiceFromClient (conn c)"

text \<open>
  \<open>snapshotUnpacker\<close> is the package's one implementation of the \<open>Unpacker\<close> interface, so
  the \<open>Unpacker\<close> field of a pull context is nil (\<open>None\<close>) or a pointer to one of these.
  \<open>'r\<close> is the type of resolvers (\<open>remotes.Resolver\<close>).
\<close>

record snapshotUnpacker =
  snapshotter :: Snapshotter
  store :: content_Store
  diff :: DiffService



text \<open>
  The handlers Pull hands to \<open>images.Dispatch\<close>, kept as the terms that build them.
  \<open>'f\<close> is the type of fetchers (\<open>remotes.Fetcher\<close>).
\<close>

datatype 'f handler =
    FetchHandler content_Store 'f
  | ChildrenHandler content_Store
  | Handlers "'f handler list"

section \<open>Collaborators and the record of their calls\<close>

text \<open>
  Every function client.go calls in another package is a field of \<open>externals\<close>. A call that
  talks to a service takes the state \<open>'w\<close> of everything outside the client (blob store, image
  store, snapshots, registry) and returns it changed; \<open>json.Unmarshal\<close> is a function of the
  bytes. \<open>v1_MediaTypeImageLayer\<close> is image-spec's constant of that name.
\<close>

record ('r, 'f, 'w) externals =
  content_ReadBlob :: "content_Store \<Rightarrow> digest \<Rightarrow> 'w \<Rightarrow> (error + bytes) \<times> 'w"
  json_Unmarshal :: "bytes \<Rightarrow> error + Manifest"
  Image_RootFS :: "images_Image \<Rightarrow> content_Store \<Rightarrow> 'w \<Rightarrow> (error + digest list) \<times> 'w"
  rootfs_ApplyLayers ::
    "Layer list \<Rightarrow> Snapshotter \<Rightarrow> DiffService \<Rightarrow> 'w \<Rightarrow> (error + digest) \<times> 'w"
  v1_MediaTypeImageLayer :: string
  docker_NewResolver :: 'r
  Resolver_Resolve :: "'r \<Rightarrow> string \<Rightarrow> 'w \<Rightarrow> (error + string \<times> Descriptor) \<times> 'w"
  Resolver_Fetcher :: "'r \<Rightarrow> string \<Rightarrow> 'w \<Rightarrow> (error + 'f) \<times> 'w"
  images_Dispatch :: "'f handler \<Rightarrow> Descriptor \<Rightarrow> 'w \<Rightarrow> error option \<times> 'w"
  Store_Put :: "images_Store \<Rightarrow> string \<Rightarrow> Descriptor \<Rightarrow> 'w \<Rightarrow> error option \<times> 'w"
  Store_Get :: "images_Store \<Rightarrow> string \<Rightarrow> 'w \<Rightarrow> (error + images_Image) \<times> 'w"

text \<open>
  A run is observed through the list of the calls it made to its collaborators, each with
  its arguments and what it returned, in the order in which the calls returned.
  \<open>Call_Unpack\<close> is the call Pull makes through the \<open>Unpacker\<close> interface; the calls
  \<open>Unpack\<close> makes in turn stand before it in the list.
\<close>

datatype ('r, 'f) call =
    Call_ReadBlob content_Store digest
  | Call_RootFS images_Image content_Store
  | Call_ApplyLayers "Layer list" Snapshotter DiffService
  | Call_Resolve 'r string
  | Call_Fetcher 'r string
  | Call_Dispatch "'f handler" Descriptor
  | Call_Put images_Store string Descriptor
  | Call_Get images_Store string
  | Call_Unpack snapshotUnpacker images_Image

datatype 'f outcome =
    Failed error
  | Done
  | Got_Blob bytes
  | Got_DiffIDs "digest list"
  | Got_ChainID digest
  | Got_Resolved string Descriptor
  | Got_Fetcher 'f
  | Got_Image images_Image

type_synonym ('r, 'f) event = "('r, 'f) call \<times> 'f outcome"
type_synonym ('r, 'f, 'w) run = "'w \<times> ('r, 'f) event list"

definition returned :: "('a \<Rightarrow> 'f outcome) \<Rightarrow> error + 'a \<Rightarrow> 'f outcome" where
  "returned ok r = (case r of Inl err \<Rightarrow> Failed err | Inr v \<Rightarrow> ok v)"


definition invoke ::
  "('r, 'f) call \<Rightarrow> ('a \<Rightarrow> 'f outcome) \<Rightarrow> ('w \<Rightarrow> 'a \<times> 'w) \<Rightarrow> ('r, 'f, 'w) run
     \<Rightarrow> 'a \<times> ('r, 'f, 'w) run" where
  "invoke c outcome_of f \<sigma> =
     (case f (fst \<sigma>) of (r, w') \<Rightarrow> (r, (w', snd \<sigma> @ [(c, outcome_of r)])))"

section \<open>The layer resolver and the unpacker (client.go)\<close>

text \<open>
  The loop of \<open>getLayers\<close>: \<open>for i := range diffIDs\<close>, writing \<open>layers[i].Diff\<close> and then
  \<open>layers[i].Blob\<close>. An index past the end of \<open>layers\<close> or of \<open>manifest.Layers\<close> panics.
  The composite literal sets \<open>MediaType\<close> and \<open>Digest\<close>; \<open>Size\<close> keeps its zero value.
\<close>

function getLayers_loop ::
  "string \<Rightarrow> nat \<Rightarrow> digest list \<Rightarrow> Manifest \<Rightarrow> Layer list \<Rightarrow> panic + Layer list" where
  "getLayers_loop mediaTypeImageLayer i diffIDs manifest layers =
     (if i < length diffIDs then
        (if i < length layers \<and> i < length (Layers manifest) then
           (let layers1 = layers[i := (layers ! i)
                           \<lparr>Diff := \<lparr>MediaType = mediaTypeImageLayer,
                                    Digest = diffIDs ! i, Size = 0\<rparr>\<rparr>];
                layers2 = layers1[i := (layers1 ! i)\<lparr>Blob := Layers manifest ! i\<rparr>]
            in getLayers_loop mediaTypeImageLayer (Suc i) diffIDs manifest layers2)
         else Inl IndexOutOfRange)
      else Inr layers)"
  by pat_completeness auto
termination
  by (relation "measure (\<lambda>(m, i, diffIDs, manifest, layers). length diffIDs - i)") auto

declare getLayers_loop.simps [simp del]

text \<open>The zero value of \<open>rootfs.Layer\<close>, which \<open>make\<close> fills the new slice with.\<close>

definition zero_Descriptor :: Descriptor where
  "zero_Descriptor = \<lparr>MediaType = [], Digest = [], Size = 0\<rparr>"

definition zero_Layer :: Layer where
  "zero_Layer = \<lparr>Diff = zero_Descriptor, Blob = zero_Descriptor\<rparr>"

text \<open>
  \<open>getLayers\<close> and \<open>Unpack\<close>, methods of \<open>snapshotUnpacker\<close>. The functions take the
  state and the calls made so far and return them with their result.
\<close>

definition getLayers ::
  "('r, 'f, 'w) externals \<Rightarrow> snapshotUnpacker \<Rightarrow> images_Image \<Rightarrow> ('r, 'f, 'w) run
     \<Rightarrow> (error + Layer list) \<times> ('r, 'f, 'w) run" where
  "getLayers ext s img \<sigma> =
     (case invoke (Call_ReadBlob (store s) (Digest (Target img))) (returned Got_Blob)
             (content_ReadBlob ext (store s) (Digest (Target img))) \<sigma> of
        (Inl err, \<sigma>1) \<Rightarrow> (Inl (Wrap err ''failed to read manifest blob''), \<sigma>1)
      | (Inr p, \<sigma>1) \<Rightarrow>
          (case json_Unmarshal ext p of
             Inl err \<Rightarrow> (Inl (Wrap err ''failed to unmarshal manifest''), \<sigma>1)
           | Inr manifest \<Rightarrow>
               (case invoke (Call_RootFS img (store s)) (returned Got_DiffIDs)
                       (Image_RootFS ext img (store s)) \<sigma>1 of
                  (Inl err, \<sigma>2) \<Rightarrow> (Inl (Wrap err ''failed to resolve rootfs''), \<sigma>2)
                | (Inr diffIDs, \<sigma>2) \<Rightarrow>
                    (if length diffIDs \<noteq> length (Layers manifest) then
                       (Inl (Errorf ''mismatched image rootfs and manifest layers''), \<sigma>2)
                     else
                       (case getLayers_loop (v1_MediaTypeImageLayer ext) 0 diffIDs manifest
                               (replicate (length diffIDs) zero_Layer) of
                          Inl pn \<Rightarrow> (Inl (Panic pn), \<sigma>2)
                        | Inr layers \<Rightarrow> (Inr layers, \<sigma>2))))))"

definition Unpack ::
  "('r, 'f, 'w) externals \<Rightarrow> snapshotUnpacker \<Rightarrow> images_Image \<Rightarrow> ('r, 'f, 'w) run
     \<Rightarrow> error option \<times> ('r, 'f, 'w) run" where
  "Unpack ext s img \<sigma> =
     (case getLayers ext s img \<sigma> of
        (Inl err, \<sigma>1) \<Rightarrow> (Some err, \<sigma>1)
      | (Inr layers, \<sigma>1) \<Rightarrow>
          (case invoke (Call_ApplyLayers layers (snapshotter s) (diff s)) (returned Got_ChainID)
                  (rootfs_ApplyLayers ext layers (snapshotter s) (diff s)) \<sigma>1 of
             (Inl err, \<sigma>2) \<Rightarrow> (Some err, \<sigma>2)
           | (Inr chainID, \<sigma>2) \<Rightarrow> (None, \<sigma>2)))"

section \<open>Pull (client.go)\<close>






section \<open>Definitions used to state the properties\<close>

text \<open>
  The layer \<open>getLayers\<close> is expected to build from one diff ID and one manifest layer.
\<close>

definition pair_layer :: "string \<Rightarrow> digest \<Rightarrow> Descriptor \<Rightarrow> Layer" where
  "pair_layer mt d b = \<lparr>Diff = \<lparr>MediaType = mt, Digest = d, Size = 0\<rparr>, Blob = b\<rparr>"

text \<open>
  A small stand-in for the collaborators, to run the functions on concrete inputs: the state
  is the list of keys stored so far, the manifest has the layers \<open>mlayers\<close>, the image
  config has the diff IDs \<open>diffs\<close>, and the call named \<open>failing\<close> (if any) returns an error;
  a failing \<open>ApplyLayers\<close> has applied the first layer by then.
\<close>

definition demo_externals ::
  "string \<Rightarrow> Descriptor list \<Rightarrow> digest list \<Rightarrow> (unit, unit, string list) externals" where
  "demo_externals failing mlayers diffs =
     \<lparr>content_ReadBlob = (\<lambda>st d w.
        (if failing = ''ReadBlob'' then Inl (Errorf ''not found'') else Inr ''{manifest}'', w)),
      json_Unmarshal = (\<lambda>p.
        if failing = ''Unmarshal'' then Inl (Errorf ''unexpected end of JSON input'')
        else Inr \<lparr>Config = zero_Descriptor, Layers = mlayers\<rparr>),
      Image_RootFS = (\<lambda>im st w.
        (if failing = ''RootFS'' then Inl (Errorf ''not found'') else Inr diffs, w)),
      rootfs_ApplyLayers = (\<lambda>ls sn df w.
        if failing = ''ApplyLayers''
        then (Inl (Errorf ''apply failed''), map (\<lambda>l. Digest (Diff l)) (take 1 ls) @ w)
        else (Inr ''chain'', map (\<lambda>l. Digest (Diff l)) ls @ w)),
      v1_MediaTypeImageLayer = ''application/vnd.oci.image.layer.v1.tar'',
      docker_NewResolver = (),
      Resolver_Resolve = (\<lambda>r ref w.
        (if failing = ''Resolve'' then Inl (Errorf ''not found'')
         else Inr (ref, \<lparr>MediaType = ''manifest'', Digest = ''sha:m'', Size = 7\<rparr>), w)),
      Resolver_Fetcher = (\<lambda>r name w.
        (if failing = ''Fetcher'' then Inl (Errorf ''no fetcher'') else Inr (), w)),
      images_Dispatch = (\<lambda>h desc w.
        if failing = ''Dispatch'' then (Some (Errorf ''fetch failed''), w)
        else (None, Digest desc # w)),
      Store_Put = (\<lambda>is name desc w.
        if failing = ''Put'' then (Some (Errorf ''put failed''), w) else (None, name # w)),
      Store_Get = (\<lambda>is name w.
        (if failing = ''Get'' then Inl (Errorf ''not found'')
         else Inr \<lparr>Name = name,
                   Target = \<lparr>MediaType = ''manifest'', Digest = ''sha:m'', Size = 7\<rparr>\<rparr>, w))\<rparr>"

definition demo_client :: Client where
  "demo_client = \<lparr>conn = Dial ''/run/containerd/containerd.sock'', Runtime = ''linux''\<rparr>"

definition demo_unpacker :: snapshotUnpacker where
  "demo_unpacker = \<lparr>snapshotter = Client_snapshotter demo_client,
                     store = Client_content demo_client,
                     diff = Client_diff demo_client\<rparr>"

definition demo_image :: images_Image where
  "demo_image = \<lparr>Name = ''busybox'',
                  Target = \<lparr>MediaType = ''manifest'', Digest = ''sha:m'', Size = 7\<rparr>\<rparr>"

text \<open>A compressed layer blob, as a manifest lists it.\<close>

definition blob :: "digest \<Rightarrow> Descriptor" where
  "blob d = \<lparr>MediaType = ''application/vnd.oci.image.layer.v1.tar+gzip'', Digest = d, Size = 1\<rparr>"













section \<open>The dispatcher\<close>

text \<open>
  Modelled from the spec: \<open>images.Dispatch\<close>, \<open>remotes.FetchHandler\<close> and
  \<open>images.ChildrenHandler\<close> are not among the source files; client.go only builds the handler
  list (fetch, then children) and calls \<open>Dispatch\<close> on the resolved descriptor. The blob
  store maps a digest to the bytes stored under it.
\<close>

type_synonym BlobStore = "digest \<rightharpoonup> bytes"

text \<open>
  Modelled from the spec: what the dispatcher is given. \<open>Fetch\<close> is the active fetcher,
  \<open>verified\<close> the length and digest check of fetched bytes, \<open>is_manifest\<close> tells the
  manifest and index types, \<open>parse_children\<close> reads the children out of such a blob.
\<close>

record dispatch_env =
  Fetch :: "Descriptor \<Rightarrow> error + bytes"
  verified :: "Descriptor \<Rightarrow> bytes \<Rightarrow> bool"
  is_manifest :: "Descriptor \<Rightarrow> bool"
  parse_children :: "bytes \<Rightarrow> error + Descriptor list"

text \<open>Modelled from the spec: the two errors of its taxonomy the dispatcher raises itself.\<close>

definition DigestMismatch :: error where
  "DigestMismatch = Errorf ''DigestMismatch''"

definition NotFound :: error where
  "NotFound = Errorf ''NotFound''"

text \<open>
  Modelled from the spec: fetch-if-absent. A node whose digest is in the blob store is
  satisfied; otherwise its bytes are fetched, checked, and stored under the digest. The
  second component of the state lists the fetches issued.
\<close>

definition spec_FetchHandler ::
  "dispatch_env \<Rightarrow> Descriptor \<Rightarrow> BlobStore \<times> Descriptor list
     \<Rightarrow> error + BlobStore \<times> Descriptor list" where
  "spec_FetchHandler env desc st =
     (case fst st (Digest desc) of
        Some b \<Rightarrow> Inr st
      | None \<Rightarrow>
          (case Fetch env desc of
             Inl err \<Rightarrow> Inl err
           | Inr b \<Rightarrow>
               if verified env desc b
               then Inr ((fst st)(Digest desc \<mapsto> b), snd st @ [desc])
               else Inl DigestMismatch))"

text \<open>
  Modelled from the spec: enumerate-children. A manifest or index is read from the store
  and parsed for its children; a config or a layer has none.
\<close>

definition spec_ChildrenHandler ::
  "dispatch_env \<Rightarrow> Descriptor \<Rightarrow> BlobStore \<Rightarrow> error + Descriptor list" where
  "spec_ChildrenHandler env desc blobs =
     (if is_manifest env desc then
        (case blobs (Digest desc) of
           None \<Rightarrow> Inl NotFound
         | Some b \<Rightarrow> parse_children env b)
      else Inr [])"

text \<open>
  Modelled from the spec: the walk. Each node runs the two handlers in order and the first
  failure ends the whole dispatch; the children are then walked before the remaining nodes.
  \<open>n\<close> bounds the number of nodes visited; \<open>None\<close> is the walk that did not end within it.
\<close>

fun spec_Dispatch ::
  "dispatch_env \<Rightarrow> nat \<Rightarrow> Descriptor list \<Rightarrow> BlobStore \<times> Descriptor list
     \<Rightarrow> (error + BlobStore \<times> Descriptor list) option" where
  "spec_Dispatch env n [] st = Some (Inr st)"
| "spec_Dispatch env 0 (desc # todo) st = None"
| "spec_Dispatch env (Suc n) (desc # todo) st =
     (case spec_FetchHandler env desc st of
        Inl err \<Rightarrow> Some (Inl err)
      | Inr st1 \<Rightarrow>
          (case spec_ChildrenHandler env desc (fst st1) of
             Inl err \<Rightarrow> Some (Inl err)
           | Inr children \<Rightarrow> spec_Dispatch env n (children @ todo) st1))"

text \<open>A content graph to run the dispatcher on: a manifest with a config and one layer.\<close>

definition demo_manifest :: Descriptor where
  "demo_manifest = \<lparr>MediaType = ''manifest'', Digest = ''sha:m'', Size = 7\<rparr>"

definition demo_config :: Descriptor where
  "demo_config = \<lparr>MediaType = ''config'', Digest = ''sha:c'', Size = 2\<rparr>"

definition demo_dispatch :: dispatch_env where
  "demo_dispatch =
     \<lparr>Fetch = (\<lambda>desc. Inr (''bytes of '' @ Digest desc)),
      verified = (\<lambda>desc b. b = ''bytes of '' @ Digest desc),
      is_manifest = (\<lambda>desc. MediaType desc = ''manifest''),
      parse_children = (\<lambda>b.
        if b = ''bytes of sha:m'' then Inr [demo_config, blob ''sha:l'']
        else Inl (Errorf ''not a manifest''))\<rparr>"

section \<open>Properties of the spec options\<close>

text \<open>
  C10. Applying \<open>WithArgs\<close> needs a non-nil \<open>Process\<close>: on a spec whose \<open>Process\<close> is nil the
  write panics with a nil pointer dereference, and on every other spec it succeeds, the
  resulting \<open>Process.Args\<close> is exactly the given list, every other field of the process
  and every other field of the spec is as before.
\<close>

theorem WithArgs_sets_only_Args:
  "WithArgs args s =
     (case Process s of
        None \<Rightarrow> Inl NilPointerDereference
      | Some p \<Rightarrow>
          Inr \<lparr>Process = Some \<lparr>Args = args, \<dots> = specs_Process.more p\<rparr>,
               Annotations = Annotations s, \<dots> = specs_Spec.more s\<rparr>)"
  by (cases s) (simp add: WithArgs_def split: option.split)

theorem WithArgs_sets_only_Args_witness:
  "WithArgs [''sh'', ''-c'', ''true'']
     \<lparr>Process = Some \<lparr>Args = [''/bin/sh'']\<rparr>, Annotations = None\<rparr> =
     Inr \<lparr>Process = Some \<lparr>Args = [''sh'', ''-c'', ''true'']\<rparr>, Annotations = None\<rparr> \<and>
   WithArgs [''sh'', ''-c'', ''true'']
     \<lparr>Process = None :: specs_Process option, Annotations = None\<rparr> =
     Inl NilPointerDereference"
  using WithArgs_sets_only_Args
          [of "[''sh'', ''-c'', ''true'']"
              "\<lparr>Process = Some \<lparr>Args = [''/bin/sh'']\<rparr>, Annotations = None\<rparr>"]
        WithArgs_sets_only_Args
          [of "[''sh'', ''-c'', ''true'']"
              "\<lparr>Process = None :: specs_Process option, Annotations = None\<rparr>"]
  by simp

section \<open>Properties of the layer resolver and the unpacker\<close>

lemma Layer_overwrite: "(r::Layer)\<lparr>Diff := D, Blob := B\<rparr> = \<lparr>Diff = D, Blob = B\<rparr>"
  by (cases r) simp

lemma getLayers_loop_run:
  "length diffIDs = length (Layers manifest) \<Longrightarrow> length layers = length diffIDs \<Longrightarrow>
   k \<le> length diffIDs \<Longrightarrow>
   getLayers_loop mt k diffIDs manifest layers =
     Inr (take k layers @ map2 (pair_layer mt) (drop k diffIDs) (drop k (Layers manifest)))"
proof (induction "length diffIDs - k" arbitrary: k layers)
  case 0
  then have "k = length diffIDs" by simp
  with 0 show ?case
    by (simp add: getLayers_loop.simps)
next
  case (Suc n)
  then have lt: "k < length diffIDs" by simp
  let ?D = "\<lparr>MediaType = mt, Digest = diffIDs ! k, Size = 0\<rparr>"
  let ?B = "Layers manifest ! k"
  let ?l2 = "layers[k := \<lparr>Diff = ?D, Blob = ?B\<rparr>]"
  have step: "getLayers_loop mt k diffIDs manifest layers =
              getLayers_loop mt (Suc k) diffIDs manifest ?l2"
    using lt Suc.prems
    by (subst getLayers_loop.simps) (simp add: Let_def Layer_overwrite)
  have ih: "getLayers_loop mt (Suc k) diffIDs manifest ?l2 =
     Inr (take (Suc k) ?l2 @
          map2 (pair_layer mt) (drop (Suc k) diffIDs) (drop (Suc k) (Layers manifest)))"
    using Suc.hyps(1)[of "Suc k" ?l2] Suc.hyps(2) Suc.prems lt by simp
  have tk: "take (Suc k) ?l2 = take k layers @ [pair_layer mt (diffIDs ! k) ?B]"
    using lt Suc.prems by (simp add: take_Suc_conv_app_nth pair_layer_def)
  have d1: "drop k diffIDs = diffIDs ! k # drop (Suc k) diffIDs"
    using lt by (simp add: Cons_nth_drop_Suc)
  have d2: "drop k (Layers manifest) = ?B # drop (Suc k) (Layers manifest)"
    using lt Suc.prems by (simp add: Cons_nth_drop_Suc)
  show ?case
    by (simp add: step ih tk d1 d2)
qed

lemma getLayers_loop_all:
  "length diffIDs = n \<Longrightarrow> length (Layers manifest) = n \<Longrightarrow>
   getLayers_loop mt 0 diffIDs manifest (replicate n zero_Layer) =
     Inr (map2 (pair_layer mt) diffIDs (Layers manifest))"
  using getLayers_loop_run [of diffIDs manifest "replicate n zero_Layer" 0 mt]
  by simp

text \<open>What getLayers returns once its three reads have returned.\<close>

lemma getLayers_after_reads:
  assumes "content_ReadBlob ext (store s) (Digest (Target img)) w = (Inr p, w1)"
      and "json_Unmarshal ext p = Inr manifest"
      and "Image_RootFS ext img (store s) w1 = (Inr diffIDs, w2)"
  shows "getLayers ext s img (w, tr) =
     (if length diffIDs = length (Layers manifest)
      then Inr (map2 (pair_layer (v1_MediaTypeImageLayer ext)) diffIDs (Layers manifest))
      else Inl (Errorf ''mismatched image rootfs and manifest layers''),
      (w2, tr @ [(Call_ReadBlob (store s) (Digest (Target img)), Got_Blob p),
                 (Call_RootFS img (store s), Got_DiffIDs diffIDs)]))"
  using assms
  by (simp add: getLayers_def invoke_def returned_def getLayers_loop_all)

lemma getLayers_ReadBlob_fails:
  assumes "content_ReadBlob ext (store s) (Digest (Target img)) w = (Inl e, w1)"
  shows "getLayers ext s img (w, tr) =
     (Inl (Wrap e ''failed to read manifest blob''),
      (w1, tr @ [(Call_ReadBlob (store s) (Digest (Target img)), Failed e)]))"
  using assms by (simp add: getLayers_def invoke_def returned_def)

lemma getLayers_Unmarshal_fails:
  assumes "content_ReadBlob ext (store s) (Digest (Target img)) w = (Inr p, w1)"
      and "json_Unmarshal ext p = Inl e"
  shows "getLayers ext s img (w, tr) =
     (Inl (Wrap e ''failed to unmarshal manifest''),
      (w1, tr @ [(Call_ReadBlob (store s) (Digest (Target img)), Got_Blob p)]))"
  using assms by (simp add: getLayers_def invoke_def returned_def)

lemma getLayers_RootFS_fails:
  assumes "content_ReadBlob ext (store s) (Digest (Target img)) w = (Inr p, w1)"
      and "json_Unmarshal ext p = Inr manifest"
      and "Image_RootFS ext img (store s) w1 = (Inl e, w2)"
  shows "getLayers ext s img (w, tr) =
     (Inl (Wrap e ''failed to resolve rootfs''),
      (w2, tr @ [(Call_ReadBlob (store s) (Digest (Target img)), Got_Blob p),
                 (Call_RootFS img (store s), Failed e)]))"
  using assms by (simp add: getLayers_def invoke_def returned_def)

lemma Unpack_getLayers_fails:
  "getLayers ext s img \<sigma> = (Inl e, \<sigma>') \<Longrightarrow> Unpack ext s img \<sigma> = (Some e, \<sigma>')"
  by (simp add: Unpack_def)


lemma getLayers_Inr_cases:
  assumes "fst (getLayers ext s img \<sigma>) = Inr layers"
  shows "\<exists>diffIDs mlayers. length diffIDs = length mlayers \<and>
           layers = map2 (pair_layer (v1_MediaTypeImageLayer ext)) diffIDs mlayers"
proof -
  obtain w tr where \<sigma>: "\<sigma> = (w, tr)" by (cases \<sigma>)
  obtain r1 w1 where r1: "content_ReadBlob ext (store s) (Digest (Target img)) w = (r1, w1)"
    by (cases "content_ReadBlob ext (store s) (Digest (Target img)) w")
  show ?thesis
  proof (cases r1)
    case (Inl e)
    with assms \<sigma> r1 show ?thesis by (simp add: getLayers_ReadBlob_fails)
  next
    case p: (Inr p)
    show ?thesis
    proof (cases "json_Unmarshal ext p")
      case (Inl e)
      with assms \<sigma> r1 p show ?thesis by (simp add: getLayers_Unmarshal_fails)
    next
      case m: (Inr manifest)
      obtain r2 w2 where r2: "Image_RootFS ext img (store s) w1 = (r2, w2)"
        by (cases "Image_RootFS ext img (store s) w1")
      show ?thesis
      proof (cases r2)
        case (Inl e)
        with assms \<sigma> r1 p m r2 show ?thesis by (simp add: getLayers_RootFS_fails)
      next
        case (Inr diffIDs)
        with assms \<sigma> r1 p m r2 have "length diffIDs = length (Layers manifest) \<and>
           layers = map2 (pair_layer (v1_MediaTypeImageLayer ext)) diffIDs (Layers manifest)"
          by (auto simp add: getLayers_after_reads split: if_splits)
        then show ?thesis by blast
      qed
    qed
  qed
qed

text \<open>
  C1. Once the manifest and the diff IDs have been read, \<open>getLayers\<close> succeeds exactly when
  the number of diff IDs equals the number of manifest layers. On a mismatch it returns the
  error "mismatched image rootfs and manifest layers", and \<open>Unpack\<close> returns that same error
  with only the two reads in its list of calls: \<open>rootfs.ApplyLayers\<close>, the one call that is
  given the snapshotter and the diff service, is not made.
\<close>

theorem getLayers_succeeds_iff_layer_counts_agree:
  assumes "content_ReadBlob ext (store s) (Digest (Target img)) w = (Inr p, w1)"
      and "json_Unmarshal ext p = Inr manifest"
      and "Image_RootFS ext img (store s) w1 = (Inr diffIDs, w2)"
  shows "((\<exists>layers. fst (getLayers ext s img (w, tr)) = Inr layers) \<longleftrightarrow>
            length diffIDs = length (Layers manifest)) \<and>
         (length diffIDs \<noteq> length (Layers manifest) \<longrightarrow>
            fst (getLayers ext s img (w, tr)) =
              Inl (Errorf ''mismatched image rootfs and manifest layers'') \<and>
            Unpack ext s img (w, tr) =
              (Some (Errorf ''mismatched image rootfs and manifest layers''),
               (w2, tr @ [(Call_ReadBlob (store s) (Digest (Target img)), Got_Blob p),
                          (Call_RootFS img (store s), Got_DiffIDs diffIDs)])))"
proof -
  note run = getLayers_after_reads [OF assms, of tr]
  have succeeds: "(\<exists>layers. fst (getLayers ext s img (w, tr)) = Inr layers) \<longleftrightarrow>
                  length diffIDs = length (Layers manifest)"
    by (simp add: run)
  have mismatch: "fst (getLayers ext s img (w, tr)) =
                    Inl (Errorf ''mismatched image rootfs and manifest layers'') \<and>
                  Unpack ext s img (w, tr) =
                    (Some (Errorf ''mismatched image rootfs and manifest layers''),
                     (w2, tr @ [(Call_ReadBlob (store s) (Digest (Target img)), Got_Blob p),
                                (Call_RootFS img (store s), Got_DiffIDs diffIDs)]))"
    if "length diffIDs \<noteq> length (Layers manifest)"
    using that by (simp add: run Unpack_def)
  from succeeds mismatch show ?thesis by blast
qed

theorem getLayers_succeeds_iff_layer_counts_agree_witness:
  "fst (getLayers (demo_externals [] [blob ''sha:a'', blob ''sha:b'', blob ''sha:c'']
                     [''sha:d1'', ''sha:d2''])
          demo_unpacker demo_image ([], [])) =
     Inl (Errorf ''mismatched image rootfs and manifest layers'') \<and>
   Unpack (demo_externals [] [blob ''sha:a'', blob ''sha:b'', blob ''sha:c'']
             [''sha:d1'', ''sha:d2''])
      demo_unpacker demo_image ([], []) =
     (Some (Errorf ''mismatched image rootfs and manifest layers''),
      ([], [(Call_ReadBlob (store demo_unpacker) ''sha:m'', Got_Blob ''{manifest}''),
            (Call_RootFS demo_image (store demo_unpacker),
             Got_DiffIDs [''sha:d1'', ''sha:d2''])])) \<and>
   (\<exists>layers. fst (getLayers (demo_externals [] [blob ''sha:a'', blob ''sha:b'']
                                [''sha:d1'', ''sha:d2''])
                     demo_unpacker demo_image ([], [])) = Inr layers)"
proof -
  let ?E = "demo_externals [] [blob ''sha:a'', blob ''sha:b''] [''sha:d1'', ''sha:d2'']"
  have e1: "content_ReadBlob ?E (store demo_unpacker) (Digest (Target demo_image)) [] =
              (Inr ''{manifest}'', [])"
    by (simp add: demo_externals_def)
  have e2: "json_Unmarshal ?E ''{manifest}'' =
              Inr \<lparr>Config = zero_Descriptor, Layers = [blob ''sha:a'', blob ''sha:b'']\<rparr>"
    by (simp add: demo_externals_def)
  have e3: "Image_RootFS ?E demo_image (store demo_unpacker) [] =
              (Inr [''sha:d1'', ''sha:d2''], [])"
    by (simp add: demo_externals_def)
  let ?D = "demo_externals [] [blob ''sha:a'', blob ''sha:b'', blob ''sha:c'']
              [''sha:d1'', ''sha:d2'']"
  have h1: "content_ReadBlob ?D (store demo_unpacker) (Digest (Target demo_image)) [] =
              (Inr ''{manifest}'', [])"
    by (simp add: demo_externals_def)
  have h2: "json_Unmarshal ?D ''{manifest}'' =
              Inr \<lparr>Config = zero_Descriptor,
                   Layers = [blob ''sha:a'', blob ''sha:b'', blob ''sha:c'']\<rparr>"
    by (simp add: demo_externals_def)
  have h3: "Image_RootFS ?D demo_image (store demo_unpacker) [] =
              (Inr [''sha:d1'', ''sha:d2''], [])"
    by (simp add: demo_externals_def)
  show ?thesis
    using getLayers_succeeds_iff_layer_counts_agree [OF h1 h2 h3, of "[]"]
          getLayers_succeeds_iff_layer_counts_agree [OF e1 e2 e3, of "[]"]
    by (simp add: demo_image_def)
qed

text \<open>
  C2. When \<open>getLayers\<close> succeeds, the list it returns is as long as the manifest's layer
  list, and at every index the layer's \<open>Blob\<close> is the manifest's layer at that index and the
  digest of its \<open>Diff\<close> is the diff ID at that index: the manifest's order is kept.
\<close>

theorem getLayers_pairs_blob_with_diffID:
  assumes "content_ReadBlob ext (store s) (Digest (Target img)) w = (Inr p, w1)"
      and "json_Unmarshal ext p = Inr manifest"
      and "Image_RootFS ext img (store s) w1 = (Inr diffIDs, w2)"
      and "fst (getLayers ext s img (w, tr)) = Inr layers"
  shows "length layers = length (Layers manifest) \<and>
         (\<forall>k<length layers. Blob (layers ! k) = Layers manifest ! k \<and>
                             Digest (Diff (layers ! k)) = diffIDs ! k)"
proof -
  have eq: "length diffIDs = length (Layers manifest)"
    using assms(4) by (simp add: getLayers_after_reads [OF assms(1-3)] split: if_splits)
  then have "layers = map2 (pair_layer (v1_MediaTypeImageLayer ext)) diffIDs (Layers manifest)"
    using assms(4) by (simp add: getLayers_after_reads [OF assms(1-3)])
  with eq show ?thesis
    by (simp add: pair_layer_def)
qed

theorem getLayers_pairs_blob_with_diffID_witness:
  "fst (getLayers (demo_externals [] [blob ''sha:a'', blob ''sha:b''] [''sha:d1'', ''sha:d2''])
          demo_unpacker demo_image ([], [])) =
     Inr [pair_layer ''application/vnd.oci.image.layer.v1.tar'' ''sha:d1'' (blob ''sha:a''),
          pair_layer ''application/vnd.oci.image.layer.v1.tar'' ''sha:d2'' (blob ''sha:b'')] \<and>
   length [pair_layer ''application/vnd.oci.image.layer.v1.tar'' ''sha:d1'' (blob ''sha:a''),
           pair_layer ''application/vnd.oci.image.layer.v1.tar'' ''sha:d2'' (blob ''sha:b'')] =
     length [blob ''sha:a'', blob ''sha:b''] \<and>
   Blob (pair_layer ''application/vnd.oci.image.layer.v1.tar'' ''sha:d2'' (blob ''sha:b'')) =
     blob ''sha:b'' \<and>
   Digest (Diff (pair_layer ''application/vnd.oci.image.layer.v1.tar'' ''sha:d2''
                   (blob ''sha:b''))) = ''sha:d2''"
proof -
  let ?D = "demo_externals [] [blob ''sha:a'', blob ''sha:b''] [''sha:d1'', ''sha:d2'']"
  let ?ls = "[pair_layer ''application/vnd.oci.image.layer.v1.tar'' ''sha:d1'' (blob ''sha:a''),
              pair_layer ''application/vnd.oci.image.layer.v1.tar'' ''sha:d2'' (blob ''sha:b'')]"
  have h1: "content_ReadBlob ?D (store demo_unpacker) (Digest (Target demo_image)) [] =
              (Inr ''{manifest}'', [])"
    by (simp add: demo_externals_def)
  have h2: "json_Unmarshal ?D ''{manifest}'' =
              Inr \<lparr>Config = zero_Descriptor, Layers = [blob ''sha:a'', blob ''sha:b'']\<rparr>"
    by (simp add: demo_externals_def)
  have h3: "Image_RootFS ?D demo_image (store demo_unpacker) [] =
              (Inr [''sha:d1'', ''sha:d2''], [])"
    by (simp add: demo_externals_def)
  have mt: "v1_MediaTypeImageLayer ?D = ''application/vnd.oci.image.layer.v1.tar''"
    by (simp add: demo_externals_def)
  have h4: "fst (getLayers ?D demo_unpacker demo_image ([], [])) = Inr ?ls"
    by (simp add: getLayers_after_reads [OF h1 h2 h3] mt)
  show ?thesis
    using getLayers_pairs_blob_with_diffID [OF h1 h2 h3 h4] h4
    by (simp add: pair_layer_def)
qed

text \<open>
  C9. Every layer \<open>getLayers\<close> returns has the media type \<open>MediaTypeImageLayer\<close> in its
  \<open>Diff\<close> descriptor, whatever the media type of the manifest's layer blob is.
\<close>

theorem getLayers_Diff_media_type:
  assumes "fst (getLayers ext s img \<sigma>) = Inr layers"
  shows "\<forall>l \<in> set layers. MediaType (Diff l) = v1_MediaTypeImageLayer ext"
proof -
  obtain diffIDs mlayers where
    "layers = map2 (pair_layer (v1_MediaTypeImageLayer ext)) diffIDs mlayers"
    using getLayers_Inr_cases [OF assms] by blast
  then show ?thesis
    by (auto simp add: pair_layer_def)
qed

theorem getLayers_Diff_media_type_witness:
  "fst (getLayers (demo_externals [] [blob ''sha:a''] [''sha:d1''])
          demo_unpacker demo_image ([], [])) =
     Inr [pair_layer ''application/vnd.oci.image.layer.v1.tar'' ''sha:d1'' (blob ''sha:a'')] \<and>
   MediaType (Blob (pair_layer ''application/vnd.oci.image.layer.v1.tar'' ''sha:d1''
                      (blob ''sha:a''))) = ''application/vnd.oci.image.layer.v1.tar+gzip'' \<and>
   MediaType (Diff (pair_layer ''application/vnd.oci.image.layer.v1.tar'' ''sha:d1''
                      (blob ''sha:a''))) =
     v1_MediaTypeImageLayer (demo_externals [] [blob ''sha:a''] [''sha:d1''])"
proof -
  let ?D = "demo_externals [] [blob ''sha:a''] [''sha:d1'']"
  let ?l = "pair_layer ''application/vnd.oci.image.layer.v1.tar'' ''sha:d1'' (blob ''sha:a'')"
  have h1: "content_ReadBlob ?D (store demo_unpacker) (Digest (Target demo_image)) [] =
              (Inr ''{manifest}'', [])"
    by (simp add: demo_externals_def)
  have h2: "json_Unmarshal ?D ''{manifest}'' =
              Inr \<lparr>Config = zero_Descriptor, Layers = [blob ''sha:a'']\<rparr>"
    by (simp add: demo_externals_def)
  have h3: "Image_RootFS ?D demo_image (store demo_unpacker) [] = (Inr [''sha:d1''], [])"
    by (simp add: demo_externals_def)
  have mt: "v1_MediaTypeImageLayer ?D = ''application/vnd.oci.image.layer.v1.tar''"
    by (simp add: demo_externals_def)
  have h4: "fst (getLayers ?D demo_unpacker demo_image ([], [])) = Inr [?l]"
    by (simp add: getLayers_after_reads [OF h1 h2 h3] mt)
  have "MediaType (Diff ?l) = v1_MediaTypeImageLayer ?D"
    using getLayers_Diff_media_type [OF h4] by simp
  with h4 show ?thesis
    by (simp add: pair_layer_def blob_def)
qed

text \<open>
  C5, as the code has it. When the counts disagree, \<open>getLayers\<close> fails with the one error
  "mismatched image rootfs and manifest layers"; the error value holds neither length.
\<close>

theorem getLayers_mismatch_error_is_fixed:
  assumes "content_ReadBlob ext (store s) (Digest (Target img)) w = (Inr p, w1)"
      and "json_Unmarshal ext p = Inr manifest"
      and "Image_RootFS ext img (store s) w1 = (Inr diffIDs, w2)"
      and "length diffIDs \<noteq> length (Layers manifest)"
  shows "fst (getLayers ext s img (w, tr)) =
           Inl (Errorf ''mismatched image rootfs and manifest layers'')"
  using assms(4) by (simp add: getLayers_after_reads [OF assms(1-3)])

theorem getLayers_mismatch_error_is_fixed_witness:
  "fst (getLayers (demo_externals [] [blob ''sha:a''] [''sha:d1'', ''sha:d2'', ''sha:d3''])
          demo_unpacker demo_image ([], [])) =
     Inl (Errorf ''mismatched image rootfs and manifest layers'')"
proof -
  let ?D = "demo_externals [] [blob ''sha:a''] [''sha:d1'', ''sha:d2'', ''sha:d3'']"
  have h1: "content_ReadBlob ?D (store demo_unpacker) (Digest (Target demo_image)) [] =
              (Inr ''{manifest}'', [])"
    by (simp add: demo_externals_def)
  have h2: "json_Unmarshal ?D ''{manifest}'' =
              Inr \<lparr>Config = zero_Descriptor, Layers = [blob ''sha:a'']\<rparr>"
    by (simp add: demo_externals_def)
  have h3: "Image_RootFS ?D demo_image (store demo_unpacker) [] =
              (Inr [''sha:d1'', ''sha:d2'', ''sha:d3''], [])"
    by (simp add: demo_externals_def)
  have h4: "length [''sha:d1'', ''sha:d2'', ''sha:d3''] \<noteq>
            length (Layers \<lparr>Config = zero_Descriptor, Layers = [blob ''sha:a'']\<rparr>)"
    by simp
  show ?thesis
    using getLayers_mismatch_error_is_fixed [OF h1 h2 h3 h4, of "[]"] by simp
qed

text \<open>
  C5 as stated fails: a manifest of three layers against two diff IDs and a manifest of one
  layer against four diff IDs fail with the same error value, so the error does not tell the
  two lengths.
\<close>

theorem getLayers_mismatch_error_hides_lengths:
  "fst (getLayers (demo_externals [] [blob ''sha:a'', blob ''sha:b'', blob ''sha:c'']
                     [''sha:d1'', ''sha:d2''])
          demo_unpacker demo_image ([], [])) =
   fst (getLayers (demo_externals [] [blob ''sha:a'']
                     [''sha:d1'', ''sha:d2'', ''sha:d3'', ''sha:d4''])
          demo_unpacker demo_image ([], [])) \<and>
   fst (getLayers (demo_externals [] [blob ''sha:a'', blob ''sha:b'', blob ''sha:c'']
                     [''sha:d1'', ''sha:d2''])
          demo_unpacker demo_image ([], [])) =
     Inl (Errorf ''mismatched image rootfs and manifest layers'') \<and>
   length [blob ''sha:a'', blob ''sha:b'', blob ''sha:c''] \<noteq> length [blob ''sha:a''] \<and>
   length [''sha:d1'', ''sha:d2''] \<noteq> length [''sha:d1'', ''sha:d2'', ''sha:d3'', ''sha:d4'']"
  by (simp add: getLayers_def invoke_def returned_def demo_externals_def)

text \<open>
  C6. \<open>getLayers\<close> first reads the blob whose key is the digest of the image's target, from
  the unpacker's store, and then asks \<open>image.RootFS\<close> on the same store for the diff IDs.
  If the blob cannot be read, if its bytes do not parse as a manifest, or if the diff IDs
  cannot be resolved, \<open>getLayers\<close> returns the wrapped error and \<open>Unpack\<close> returns that
  error too, its list of calls ending at the failed read: \<open>rootfs.ApplyLayers\<close> is not called.
\<close>

theorem getLayers_read_failures_stop_Unpack:
  "(content_ReadBlob ext (store s) (Digest (Target img)) w = (Inl e, w1) \<longrightarrow>
      getLayers ext s img (w, tr) =
        (Inl (Wrap e ''failed to read manifest blob''),
         (w1, tr @ [(Call_ReadBlob (store s) (Digest (Target img)), Failed e)])) \<and>
      Unpack ext s img (w, tr) =
        (Some (Wrap e ''failed to read manifest blob''),
         (w1, tr @ [(Call_ReadBlob (store s) (Digest (Target img)), Failed e)]))) \<and>
   (content_ReadBlob ext (store s) (Digest (Target img)) w = (Inr p, w1) \<and>
    json_Unmarshal ext p = Inl e \<longrightarrow>
      getLayers ext s img (w, tr) =
        (Inl (Wrap e ''failed to unmarshal manifest''),
         (w1, tr @ [(Call_ReadBlob (store s) (Digest (Target img)), Got_Blob p)])) \<and>
      Unpack ext s img (w, tr) =
        (Some (Wrap e ''failed to unmarshal manifest''),
         (w1, tr @ [(Call_ReadBlob (store s) (Digest (Target img)), Got_Blob p)]))) \<and>
   (content_ReadBlob ext (store s) (Digest (Target img)) w = (Inr p, w1) \<and>
    json_Unmarshal ext p = Inr manifest \<and>
    Image_RootFS ext img (store s) w1 = (Inl e, w2) \<longrightarrow>
      getLayers ext s img (w, tr) =
        (Inl (Wrap e ''failed to resolve rootfs''),
         (w2, tr @ [(Call_ReadBlob (store s) (Digest (Target img)), Got_Blob p),
                    (Call_RootFS img (store s), Failed e)])) \<and>
      Unpack ext s img (w, tr) =
        (Some (Wrap e ''failed to resolve rootfs''),
         (w2, tr @ [(Call_ReadBlob (store s) (Digest (Target img)), Got_Blob p),
                    (Call_RootFS img (store s), Failed e)]))) \<and>
   (content_ReadBlob ext (store s) (Digest (Target img)) w = (Inr p, w1) \<and>
    json_Unmarshal ext p = Inr manifest \<and>
    Image_RootFS ext img (store s) w1 = (Inr diffIDs, w2) \<longrightarrow>
      snd (getLayers ext s img (w, tr)) =
        (w2, tr @ [(Call_ReadBlob (store s) (Digest (Target img)), Got_Blob p),
                   (Call_RootFS img (store s), Got_DiffIDs diffIDs)]))"
  by (simp add: getLayers_ReadBlob_fails getLayers_Unmarshal_fails getLayers_RootFS_fails
                getLayers_after_reads Unpack_def)

theorem getLayers_read_failures_stop_Unpack_witness:
  "Unpack (demo_externals ''ReadBlob'' [blob ''sha:a''] [''sha:d1''])
      demo_unpacker demo_image ([], []) =
     (Some (Wrap (Errorf ''not found'') ''failed to read manifest blob''),
      ([], [(Call_ReadBlob (store demo_unpacker) ''sha:m'', Failed (Errorf ''not found''))])) \<and>
   Unpack (demo_externals ''Unmarshal'' [blob ''sha:a''] [''sha:d1''])
      demo_unpacker demo_image ([], []) =
     (Some (Wrap (Errorf ''unexpected end of JSON input'') ''failed to unmarshal manifest''),
      ([], [(Call_ReadBlob (store demo_unpacker) ''sha:m'', Got_Blob ''{manifest}'')])) \<and>
   Unpack (demo_externals ''RootFS'' [blob ''sha:a''] [''sha:d1''])
      demo_unpacker demo_image ([], []) =
     (Some (Wrap (Errorf ''not found'') ''failed to resolve rootfs''),
      ([], [(Call_ReadBlob (store demo_unpacker) ''sha:m'', Got_Blob ''{manifest}''),
            (Call_RootFS demo_image (store demo_unpacker), Failed (Errorf ''not found''))])) \<and>
   snd (getLayers (demo_externals [] [blob ''sha:a''] [''sha:d1''])
          demo_unpacker demo_image ([], [])) =
     ([], [(Call_ReadBlob (store demo_unpacker) ''sha:m'', Got_Blob ''{manifest}''),
           (Call_RootFS demo_image (store demo_unpacker), Got_DiffIDs [''sha:d1''])])"
proof -
  let ?O = "demo_externals [] [blob ''sha:a''] [''sha:d1'']"
  let ?A = "demo_externals ''ReadBlob'' [blob ''sha:a''] [''sha:d1'']"
  let ?B = "demo_externals ''Unmarshal'' [blob ''sha:a''] [''sha:d1'']"
  let ?C = "demo_externals ''RootFS'' [blob ''sha:a''] [''sha:d1'']"
  let ?M = "\<lparr>Config = zero_Descriptor, Layers = [blob ''sha:a'']\<rparr>"
  have a: "content_ReadBlob ?A (store demo_unpacker) (Digest (Target demo_image)) [] =
             (Inl (Errorf ''not found''), [])"
    by (simp add: demo_externals_def)
  have b: "content_ReadBlob ?B (store demo_unpacker) (Digest (Target demo_image)) [] =
             (Inr ''{manifest}'', []) \<and>
           json_Unmarshal ?B ''{manifest}'' = Inl (Errorf ''unexpected end of JSON input'')"
    by (simp add: demo_externals_def)
  have c: "content_ReadBlob ?C (store demo_unpacker) (Digest (Target demo_image)) [] =
             (Inr ''{manifest}'', []) \<and>
           json_Unmarshal ?C ''{manifest}'' = Inr ?M \<and>
           Image_RootFS ?C demo_image (store demo_unpacker) [] = (Inl (Errorf ''not found''), [])"
    by (simp add: demo_externals_def)
  have o: "content_ReadBlob ?O (store demo_unpacker) (Digest (Target demo_image)) [] =
             (Inr ''{manifest}'', []) \<and>
           json_Unmarshal ?O ''{manifest}'' = Inr ?M \<and>
           Image_RootFS ?O demo_image (store demo_unpacker) [] = (Inr [''sha:d1''], [])"
    by (simp add: demo_externals_def)
  have d: "Digest (Target demo_image) = ''sha:m''"
    by (simp add: demo_image_def)
  show ?thesis
    using getLayers_read_failures_stop_Unpack
            [of ?A demo_unpacker demo_image "[]" "Errorf ''not found''" "[]" "[]"]
          getLayers_read_failures_stop_Unpack
            [of ?B demo_unpacker demo_image "[]" "Errorf ''unexpected end of JSON input''" "[]"
                "[]" "''{manifest}''"]
          getLayers_read_failures_stop_Unpack
            [of ?C demo_unpacker demo_image "[]" "Errorf ''not found''" "[]" "[]"
                "''{manifest}''" ?M "[]"]
          getLayers_read_failures_stop_Unpack
            [of ?O demo_unpacker demo_image "[]" "Errorf []" "[]" "[]"
                "''{manifest}''" ?M "[]" "[''sha:d1'']"]
          a b c o
    by (simp add: d)
qed

section \<open>Properties of Pull\<close>





























section \<open>Properties of the dispatcher\<close>

lemma spec_FetchHandler_grows:
  "spec_FetchHandler env desc (blobs, fetched) = Inr (blobs1, fetched1) \<Longrightarrow>
   blobs \<subseteq>\<^sub>m blobs1 \<and> blobs1 (Digest desc) \<noteq> None"
  by (auto simp add: spec_FetchHandler_def map_le_def split: option.splits sum.splits if_splits)

lemma spec_FetchHandler_present:
  "blobs (Digest desc) = Some b \<Longrightarrow>
   spec_FetchHandler env desc (blobs, fetched) = Inr (blobs, fetched)"
  by (simp add: spec_FetchHandler_def)

lemma spec_ChildrenHandler_mono:
  "spec_ChildrenHandler env desc blobs = Inr children \<Longrightarrow> blobs (Digest desc) \<noteq> None \<Longrightarrow>
   blobs \<subseteq>\<^sub>m S \<Longrightarrow> spec_ChildrenHandler env desc S = Inr children"
proof -
  assume c: "spec_ChildrenHandler env desc blobs = Inr children"
     and p: "blobs (Digest desc) \<noteq> None" and le: "blobs \<subseteq>\<^sub>m S"
  from p obtain b where b: "blobs (Digest desc) = Some b" by blast
  with le have "S (Digest desc) = Some b"
    by (metis domI map_le_def)
  with c b show ?thesis
    by (simp add: spec_ChildrenHandler_def split: if_splits)
qed

lemma spec_Dispatch_grows:
  "spec_Dispatch env n todo (blobs, fetched) = Some (Inr (blobs', fetched')) \<Longrightarrow>
   blobs \<subseteq>\<^sub>m blobs'"
proof (induction n arbitrary: todo blobs fetched)
  case 0
  then show ?case by (cases todo) simp_all
next
  case (Suc n)
  show ?case
  proof (cases todo)
    case Nil
    with Suc.prems show ?thesis by simp
  next
    case (Cons desc rest)
    with Suc.prems obtain blobs1 fetched1 children where
      f: "spec_FetchHandler env desc (blobs, fetched) = Inr (blobs1, fetched1)" and
      c: "spec_ChildrenHandler env desc blobs1 = Inr children" and
      d: "spec_Dispatch env n (children @ rest) (blobs1, fetched1) = Some (Inr (blobs', fetched'))"
      by (auto split: sum.splits)
    from spec_FetchHandler_grows [OF f] have "blobs \<subseteq>\<^sub>m blobs1" by simp
    moreover from Suc.IH [OF d] have "blobs1 \<subseteq>\<^sub>m blobs'" .
    ultimately show ?thesis by (rule map_le_trans)
  qed
qed

lemma spec_Dispatch_no_fetch:
  "spec_Dispatch env n todo (blobs, fetched) = Some (Inr (blobs', fetched')) \<Longrightarrow>
   blobs' \<subseteq>\<^sub>m S \<Longrightarrow>
   spec_Dispatch env n todo (S, log) = Some (Inr (S, log))"
proof (induction n arbitrary: todo blobs fetched)
  case 0
  then show ?case by (cases todo) simp_all
next
  case (Suc n)
  show ?case
  proof (cases todo)
    case Nil
    then show ?thesis by simp
  next
    case (Cons desc rest)
    with Suc.prems(1) obtain blobs1 fetched1 children where
      f: "spec_FetchHandler env desc (blobs, fetched) = Inr (blobs1, fetched1)" and
      c: "spec_ChildrenHandler env desc blobs1 = Inr children" and
      d: "spec_Dispatch env n (children @ rest) (blobs1, fetched1) = Some (Inr (blobs', fetched'))"
      by (auto split: sum.splits)
    from spec_FetchHandler_grows [OF f] have p: "blobs1 (Digest desc) \<noteq> None" by simp
    from spec_Dispatch_grows [OF d] Suc.prems(2) have le: "blobs1 \<subseteq>\<^sub>m S"
      by (rule map_le_trans)
    from p obtain b where "blobs1 (Digest desc) = Some b" by blast
    with le have "S (Digest desc) = Some b" by (metis domI map_le_def)
    then have f': "spec_FetchHandler env desc (S, log) = Inr (S, log)"
      by (rule spec_FetchHandler_present)
    have c': "spec_ChildrenHandler env desc S = Inr children"
      using c p le by (rule spec_ChildrenHandler_mono)
    from Suc.IH [OF d Suc.prems(2)] Cons f' c' show ?thesis by simp
  qed
qed

text \<open>
  C4. Dispatch is idempotent with respect to the blob store: when a dispatch from a root has
  succeeded, a second dispatch from the same root, on the store the first one left or on any
  store that holds at least those blobs (so every digest the walk reaches is present),
  succeeds, leaves the store as it is and issues no fetch.
\<close>

theorem spec_Dispatch_idempotent:
  assumes "spec_Dispatch env n [root] (blobs, fetched) = Some (Inr (blobs', fetched'))"
      and "blobs' \<subseteq>\<^sub>m S"
  shows "spec_Dispatch env n [root] (S, []) = Some (Inr (S, []))"
  using assms by (rule spec_Dispatch_no_fetch)


theorem spec_Dispatch_idempotent_witness:
  "spec_Dispatch demo_dispatch 3 [demo_manifest] (Map.empty, []) =
     Some (Inr ([''sha:m'' \<mapsto> ''bytes of sha:m'', ''sha:c'' \<mapsto> ''bytes of sha:c'',
                 ''sha:l'' \<mapsto> ''bytes of sha:l''],
                [demo_manifest, demo_config, blob ''sha:l''])) \<and>
   spec_Dispatch demo_dispatch 3 [demo_manifest]
     ([''sha:m'' \<mapsto> ''bytes of sha:m'', ''sha:c'' \<mapsto> ''bytes of sha:c'',
       ''sha:l'' \<mapsto> ''bytes of sha:l''], []) =
     Some (Inr ([''sha:m'' \<mapsto> ''bytes of sha:m'', ''sha:c'' \<mapsto> ''bytes of sha:c'',
                 ''sha:l'' \<mapsto> ''bytes of sha:l''], []))"
proof -
  have first: "spec_Dispatch demo_dispatch 3 [demo_manifest] (Map.empty, []) =
     Some (Inr ([''sha:m'' \<mapsto> ''bytes of sha:m'', ''sha:c'' \<mapsto> ''bytes of sha:c'',
                 ''sha:l'' \<mapsto> ''bytes of sha:l''],
                [demo_manifest, demo_config, blob ''sha:l'']))"
    by (simp add: numeral_3_eq_3 spec_FetchHandler_def spec_ChildrenHandler_def
                  demo_dispatch_def demo_manifest_def demo_config_def blob_def)
  from spec_Dispatch_idempotent [OF first map_le_refl] first show ?thesis by simp
qed

end
